theory Spec2Isabelle
  imports Complex_Main "HOL-Library.AList"
begin

section \<open>Python values used by the log anomaly detector\<close>

text \<open>
  A Python \<open>str\<close> is a sequence of Unicode code points, so \<open>len\<close> is \<open>length\<close>.
  The literals of the source are ASCII except for the label and banner prefixes, whose
  code points are written out below.
\<close>

type_synonym pystr = "nat list"

definition str :: "string \<Rightarrow> pystr" where
  "str cs = map of_char cs"

text \<open>
  The code points for which \<open>str.isspace\<close> holds: U+0009 to U+000D, U+001C to U+0020,
  U+0085, U+00A0, U+1680, U+2000 to U+200A, U+2028, U+2029, U+202F, U+205F and U+3000.
  \<open>str.strip()\<close> without an argument removes them from both ends.
\<close>

definition isspace :: "nat \<Rightarrow> bool" where
  "isspace c \<longleftrightarrow>
     (9 \<le> c \<and> c \<le> 13) \<or> (28 \<le> c \<and> c \<le> 32) \<or> c = 133 \<or> c = 160 \<or> c = 5760 \<or>
     (8192 \<le> c \<and> c \<le> 8202) \<or> c = 8232 \<or> c = 8233 \<or> c = 8239 \<or> c = 8287 \<or> c = 12288"

definition lstrip :: "pystr \<Rightarrow> pystr" where
  "lstrip s = dropWhile isspace s"

definition rstrip :: "pystr \<Rightarrow> pystr" where
  "rstrip s = rev (dropWhile isspace (rev s))"

definition strip :: "pystr \<Rightarrow> pystr" where
  "strip s = lstrip (rstrip s)"

text \<open>
  \<open>s.split(sep, maxsplit)\<close> for a one-character separator: at most \<open>maxsplit\<close> cuts,
  empty fields kept, the last field takes the rest. With \<open>maxsplit\<close> at least the number
  of separators it is \<open>s.split(sep)\<close>.
\<close>

primrec split_sep :: "nat \<Rightarrow> nat \<Rightarrow> pystr \<Rightarrow> pystr list" where
  "split_sep sep 0 s = [s]"
| "split_sep sep (Suc n) s =
     (if sep \<in> set s
      then takeWhile (\<lambda>c. c \<noteq> sep) s # split_sep sep n (tl (dropWhile (\<lambda>c. c \<noteq> sep) s))
      else [s])"

text \<open>
  The exceptions of the pandas operations below, and \<open>LibraryError\<close> for whatever else a
  library call raises. \<open>bind_err\<close> runs the next statement unless an exception was raised.
\<close>

datatype pyerror = KeyError pystr | ValueError | TypeError | LibraryError pystr

definition bind_err :: "'e + 'a \<Rightarrow> ('a \<Rightarrow> 'e + 'b) \<Rightarrow> 'e + 'b" where
  "bind_err m f = (case m of Inl e \<Rightarrow> Inl e | Inr x \<Rightarrow> f x)"

section \<open>The pandas operations the program calls\<close>

text \<open>
  A cell is a string, a parsed timestamp (nanoseconds since the epoch), the missing
  timestamp \<open>NaT\<close>, a number or the missing number \<open>NaN\<close>. Every number of this program is
  integral (level scores, message lengths, the predictions \<open>-1\<close> and \<open>1\<close>); where pandas
  holds it as a float it has the same value. A frame has its row labels and its columns in
  insertion order.
\<close>

datatype cell = Str pystr | Stamp int | NaT | Num int | NaN

record dataframe =
  index :: "nat list"
  columns :: "(pystr \<times> cell list) list"

definition isna :: "cell \<Rightarrow> bool" where
  "isna c \<longleftrightarrow> c = NaT \<or> c = NaN"

text \<open>\<open>pd.DataFrame(data, columns=names)\<close> from a list of rows.\<close>

definition DataFrame :: "cell list list \<Rightarrow> pystr list \<Rightarrow> pyerror + dataframe" where
  "DataFrame data names =
     (if \<forall>row \<in> set data. length row = length names
      then Inr \<lparr>index = [0..<length data],
                columns = map (\<lambda>j. (names ! j, map (\<lambda>row. row ! j) data)) [0..<length names]\<rparr>
      else Inl ValueError)"

text \<open>\<open>df[name]\<close>, \<open>df[[names]]\<close> and \<open>df[name] = values\<close> on a frame value.\<close>

definition getitem :: "dataframe \<Rightarrow> pystr \<Rightarrow> pyerror + cell list" where
  "getitem df name =
     (case map_of (columns df) name of None \<Rightarrow> Inl (KeyError name) | Some col \<Rightarrow> Inr col)"

primrec getitems :: "dataframe \<Rightarrow> pystr list \<Rightarrow> pyerror + dataframe" where
  "getitems df [] = Inr \<lparr>index = index df, columns = []\<rparr>"
| "getitems df (name # names) =
     bind_err (getitem df name) (\<lambda>col.
     bind_err (getitems df names) (\<lambda>rest.
       Inr (rest\<lparr>columns := (name, col) # columns rest\<rparr>)))"

text \<open>
  Assigning a column replaces it in place or appends it. A value of the wrong length
  raises, except on a frame without rows, which takes its rows from the value
  and fills its other columns with \<open>NaN\<close>.
\<close>

definition frame_setitem :: "dataframe \<Rightarrow> pystr \<Rightarrow> cell list \<Rightarrow> pyerror + dataframe" where
  "frame_setitem df name vals =
     (if index df = [] \<and> vals \<noteq> []
      then Inr \<lparr>index = [0..<length vals],
                columns = AList.update name vals
                  (map (\<lambda>(k, _). (k, replicate (length vals) NaN)) (columns df))\<rparr>
      else if length vals \<noteq> length (index df) then Inl ValueError
      else Inr (df\<lparr>columns := AList.update name vals (columns df)\<rparr>))"

text \<open>Boolean indexing: the rows whose mask entry is true.\<close>

definition select :: "bool list \<Rightarrow> 'a list \<Rightarrow> 'a list" where
  "select keep xs = map snd (filter fst (zip keep xs))"

definition loc_mask :: "dataframe \<Rightarrow> bool list \<Rightarrow> dataframe" where
  "loc_mask df keep =
     \<lparr>index = select keep (index df),
      columns = map (\<lambda>(k, vs). (k, select keep vs)) (columns df)\<rparr>"

definition dropna :: "dataframe \<Rightarrow> pystr \<Rightarrow> pyerror + dataframe" where
  "dropna df name =
     bind_err (getitem df name) (\<lambda>col. Inr (loc_mask df (map (\<lambda>c. \<not> isna c) col)))"

text \<open>
  In every frame that pandas builds each column has one cell for each row label;
  \<open>df.empty\<close> holds when there are no rows or no columns.
\<close>

definition wf_frame :: "dataframe \<Rightarrow> bool" where
  "wf_frame df \<longleftrightarrow> (\<forall>(k, vs) \<in> set (columns df). length vs = length (index df))"


text \<open>
  \<open>pd.to_datetime(column, errors="coerce")\<close>. The parser of pandas is a parameter
  \<open>td\<close>: given the whole column and a position it yields the timestamp parsed there, or
  \<open>None\<close> where coercion gives \<open>NaT\<close> (pandas may infer one format from the column, so the
  result at a position may depend on the other entries).
\<close>

definition to_datetime :: "(cell list \<Rightarrow> nat \<Rightarrow> int option) \<Rightarrow> cell list \<Rightarrow> cell list" where
  "to_datetime td col =
     map (\<lambda>i. case td col i of None \<Rightarrow> NaT | Some t \<Rightarrow> Stamp t) [0..<length col]"

text \<open>\<open>Series.map(dict)\<close>, \<open>Series.fillna(v)\<close> and \<open>Series.apply(len)\<close>.\<close>

definition series_map :: "(pystr \<rightharpoonup> int) \<Rightarrow> cell list \<Rightarrow> cell list" where
  "series_map d col =
     map (\<lambda>c. case c of Str s \<Rightarrow> (case d s of None \<Rightarrow> NaN | Some v \<Rightarrow> Num v) | _ \<Rightarrow> NaN) col"

definition fillna :: "cell \<Rightarrow> cell list \<Rightarrow> cell list" where
  "fillna v col = map (\<lambda>c. if isna c then v else c) col"

primrec apply_len :: "cell list \<Rightarrow> pyerror + cell list" where
  "apply_len [] = Inr []"
| "apply_len (c # cs) =
     (case c of
        Str s \<Rightarrow> bind_err (apply_len cs) (\<lambda>ns. Inr (Num (int (length s)) # ns))
      | _ \<Rightarrow> Inl TypeError)"

section \<open>Objects\<close>

text \<open>
  \<open>feature_engineering\<close> and \<open>detect_anomalies\<close> receive a reference to a DataFrame,
  assign columns through it and return it. The store maps every address to the frame it
  holds, and \<open>df[name] = values\<close> through a reference updates the store at that address.
\<close>

type_synonym ref = nat

type_synonym heap = "ref \<Rightarrow> dataframe"

definition setitem :: "heap \<Rightarrow> ref \<Rightarrow> pystr \<Rightarrow> cell list \<Rightarrow> pyerror + heap" where
  "setitem h r name vals =
     bind_err (frame_setitem (h r) name vals) (\<lambda>df. Inr (h(r := df)))"

section \<open>The program\<close>

subsection \<open>\<open>read_logs\<close>\<close>






subsection \<open>\<open>parse_logs\<close>\<close>

text \<open>
  The loop over the lines collects the rows; a line with fewer than four parts is skipped.
  The frame built from them belongs to \<open>parse_logs\<close> alone until it is returned, so it
  is a value here.
\<close>

fun parse_rows :: "pystr list \<Rightarrow> cell list list" where
  "parse_rows [] = []"
| "parse_rows (line # logs) =
     (let parts = split_sep 32 3 (strip line) in
      if length parts < 4 then parse_rows logs
      else [Str (parts ! 0 @ str '' '' @ parts ! 1), Str (parts ! 2), Str (parts ! 3)]
           # parse_rows logs)"

definition parse_logs :: "(cell list \<Rightarrow> nat \<Rightarrow> int option) \<Rightarrow> pystr list \<Rightarrow> pyerror + dataframe" where
  "parse_logs td logs =
     bind_err (DataFrame (parse_rows logs) [str ''timestamp'', str ''level'', str ''message''])
       (\<lambda>df.
     bind_err (getitem df (str ''timestamp'')) (\<lambda>ts.
     bind_err (frame_setitem df (str ''timestamp'') (to_datetime td ts)) (\<lambda>df.
     dropna df (str ''timestamp''))))"

subsection \<open>\<open>feature_engineering\<close>\<close>

definition level_mapping :: "pystr \<rightharpoonup> int" where
  "level_mapping =
     map_of [(str ''INFO'', 1), (str ''WARNING'', 2), (str ''ERROR'', 3), (str ''CRITICAL'', 4)]"

definition feature_engineering :: "heap \<Rightarrow> ref \<Rightarrow> pyerror + heap \<times> ref" where
  "feature_engineering h df =
     bind_err (getitem (h df) (str ''level'')) (\<lambda>level.
     bind_err (setitem h df (str ''level_score'') (fillna (Num 0) (series_map level_mapping level)))
       (\<lambda>h1.
     bind_err (getitem (h1 df) (str ''message'')) (\<lambda>message.
     bind_err (apply_len message) (\<lambda>lens.
     bind_err (setitem h1 df (str ''message_length'') lens) (\<lambda>h2.
     Inr (h2, df))))))"

subsection \<open>\<open>detect_anomalies\<close>\<close>

text \<open>
  \<open>IsolationForest(contamination, random_state).fit_predict(X)\<close> belongs to scikit-learn
  and is a parameter: from the state \<open>w\<close> of the process-wide random generator, the
  contamination, the seed (\<open>None\<close> when \<open>random_state\<close> is not given) and the feature frame
  it raises or returns an array of predictions. Which rows it flags, how many, and on which
  inputs it raises are facts about scikit-learn that this development leaves open. The two
  labels are the string literals of the source, code point by code point.
\<close>

type_synonym 'w isolation_forest = "'w \<Rightarrow> real \<Rightarrow> nat option \<Rightarrow> dataframe \<Rightarrow> pyerror + int list"

definition anomaly_label :: pystr where
  "anomaly_label = [8218, 249, 229] @ str '' Anomaly''"

definition normal_label :: pystr where
  "normal_label = [8218, 250, 214] @ str '' Normal''"

definition detect_anomalies ::
    "'w isolation_forest \<Rightarrow> 'w \<Rightarrow> heap \<Rightarrow> ref \<Rightarrow> real \<Rightarrow> pyerror + heap \<times> ref" where
  "detect_anomalies fit_predict w h df contamination =
     bind_err (getitems (h df) [str ''level_score'', str ''message_length'']) (\<lambda>X.
     bind_err (fit_predict w contamination (Some 42) X) (\<lambda>pred.
     bind_err (setitem h df (str ''anomaly'') (map Num pred)) (\<lambda>h1.
     bind_err (getitem (h1 df) (str ''anomaly'')) (\<lambda>anomaly.
     bind_err (setitem h1 df (str ''is_anomaly'')
                 (map (\<lambda>x. Str (if x = Num (- 1) then anomaly_label else normal_label)) anomaly))
       (\<lambda>h2.
     Inr (h2, df))))))"

subsection \<open>\<open>main\<close>\<close>

text \<open>
  \<open>main\<close> holds the parsed frame at address 0 of a store whose other addresses hold
  nothing of interest. The contamination is the literal \<open>0.1\<close>. An exception that nothing
  catches ends the run. \<open>print(banner, anomalies)\<close> prints the banner and the frame.
\<close>

definition no_frame :: dataframe where
  "no_frame = \<lparr>index = [], columns = []\<rparr>"



section \<open>Facts about the string operations\<close>












section \<open>Facts about the frame operations and the parser\<close>

lemma bind_err_simps [simp]:
  "bind_err (Inl e) f = Inl e"
  "bind_err (Inr x) f = f x"
  by (simp_all add: bind_err_def)

lemma str_eq_iff [simp]: "str a = str b \<longleftrightarrow> a = b"
  by (simp add: str_def inj_map_eq_map inj_def)

lemma frame_setitem_aligned:
  "length vals = length (index df) \<Longrightarrow>
     frame_setitem df name vals = Inr (df\<lparr>columns := AList.update name vals (columns df)\<rparr>)"
  by (auto simp: frame_setitem_def)

lemma getitem_columns_update:
  "getitem (df\<lparr>columns := AList.update k v (columns df)\<rparr>) k' =
     (if k' = k then Inr v else getitem df k')"
  by (simp add: getitem_def update_conv')

lemma select_map_map: "select (map f xs) (map g xs) = map g (filter f xs)"
  by (induction xs) (simp_all add: select_def)

lemma select_map_self: "select (map f xs) xs = filter f xs"
  using select_map_map [of f xs "\<lambda>x. x"] by simp

lemma parse_rows_width: "row \<in> set (parse_rows logs) \<Longrightarrow> length row = 3"
  by (induction logs) (auto simp: Let_def split: if_splits)



lemma DataFrame_three:
  assumes "\<forall>row \<in> set data. length row = 3"
  shows "DataFrame data [a, b, c] =
           Inr \<lparr>index = [0..<length data],
                columns = [(a, map (\<lambda>row. row ! 0) data), (b, map (\<lambda>row. row ! 1) data),
                           (c, map (\<lambda>row. row ! 2) data)]\<rparr>"
proof -
  have "[0..<length [a, b, c]] = [0, 1, 2]"
    by (simp add: upt_rec)
  then show ?thesis
    using assms by (simp add: DataFrame_def numeral_2_eq_2)
qed

lemma length_to_datetime [simp]: "length (to_datetime td col) = length col"
  by (simp add: to_datetime_def)

text \<open>The frame that \<open>parse_logs\<close> returns, row by row.\<close>

lemma parse_logs_rows:
  assumes data: "data = parse_rows logs"
    and ts: "ts = map (\<lambda>row. row ! 0) data"
    and kept: "kept = filter (\<lambda>i. td ts i \<noteq> None) [0..<length data]"
  shows "parse_logs td logs =
           Inr \<lparr>index = kept,
                columns =
                  [(str ''timestamp'', map (\<lambda>i. case td ts i of None \<Rightarrow> NaT | Some t \<Rightarrow> Stamp t) kept),
                   (str ''level'', map (\<lambda>i. data ! i ! 1) kept),
                   (str ''message'', map (\<lambda>i. data ! i ! 2) kept)]\<rparr>"
proof -
  let ?n = "length data"
  let ?cell = "\<lambda>i. case td ts i of None \<Rightarrow> NaT | Some t \<Rightarrow> Stamp t"
  let ?keep = "map (\<lambda>i. td ts i \<noteq> None) [0..<?n]"
  let ?lv = "map (\<lambda>row. row ! 1) data"
  let ?ms = "map (\<lambda>row. row ! 2) data"
  let ?F0 = "\<lparr>index = [0..<?n],
              columns = [(str ''timestamp'', ts), (str ''level'', ?lv), (str ''message'', ?ms)]\<rparr>"
  let ?F1 = "\<lparr>index = [0..<?n],
              columns = [(str ''timestamp'', to_datetime td ts), (str ''level'', ?lv),
                         (str ''message'', ?ms)]\<rparr>"
  have frame: "DataFrame (parse_rows logs) [str ''timestamp'', str ''level'', str ''message'']
                 = Inr ?F0"
    unfolding ts data by (rule DataFrame_three) (simp add: parse_rows_width)
  have get: "getitem ?F0 (str ''timestamp'') = Inr ts"
    by (simp add: getitem_def)
  have "frame_setitem ?F0 (str ''timestamp'') (to_datetime td ts)
          = Inr (?F0\<lparr>columns := AList.update (str ''timestamp'') (to_datetime td ts) (columns ?F0)\<rparr>)"
    by (rule frame_setitem_aligned) (simp add: ts)
  then have set: "frame_setitem ?F0 (str ''timestamp'') (to_datetime td ts) = Inr ?F1"
    by simp
  have stamps: "to_datetime td ts = map ?cell [0..<?n]"
    by (simp add: to_datetime_def ts)
  have keep: "map (\<lambda>c. \<not> isna c) (to_datetime td ts) = ?keep"
    unfolding stamps by (rule nth_equalityI) (simp_all add: isna_def split: option.split)
  have nth_col: "\<And>j. map (\<lambda>row. row ! j) data = map (\<lambda>i. data ! i ! j) [0..<?n]"
    by (rule nth_equalityI) simp_all
  have "dropna ?F1 (str ''timestamp'') = Inr (loc_mask ?F1 ?keep)"
    by (simp add: dropna_def getitem_def keep)
  also have "loc_mask ?F1 ?keep =
      \<lparr>index = kept,
       columns = [(str ''timestamp'', map ?cell kept), (str ''level'', map (\<lambda>i. data ! i ! 1) kept),
                  (str ''message'', map (\<lambda>i. data ! i ! 2) kept)]\<rparr>"
    by (simp add: loc_mask_def stamps nth_col select_map_map select_map_self kept)
  finally have drop: "dropna ?F1 (str ''timestamp'') =
      Inr \<lparr>index = kept,
       columns = [(str ''timestamp'', map ?cell kept), (str ''level'', map (\<lambda>i. data ! i ! 1) kept),
                  (str ''message'', map (\<lambda>i. data ! i ! 2) kept)]\<rparr>" .
  show ?thesis
    by (simp only: parse_logs_def frame bind_err_simps get set drop)
qed




section \<open>The log parser\<close>






section \<open>Facts about the two stages\<close>

lemma apply_len_strs: "apply_len (map Str msgs) = Inr (map (\<lambda>m. Num (int (length m))) msgs)"
  by (induction msgs) simp_all

lemma apply_len_Inr:
  "apply_len col = Inr lens \<Longrightarrow> length lens = length col"
  by (induction col arbitrary: lens) (auto simp: bind_err_def split: cell.splits sum.splits)

lemma wf_frame_getitem:
  "wf_frame df \<Longrightarrow> getitem df name = Inr col \<Longrightarrow> length col = length (index df)"
  by (auto simp: wf_frame_def getitem_def split: option.splits dest: map_of_SomeD)

lemma setitem_aligned:
  "length vals = length (index (h r)) \<Longrightarrow>
     setitem h r name vals = Inr (h(r := (h r)\<lparr>columns := AList.update name vals (columns (h r))\<rparr>))"
  by (simp add: setitem_def frame_setitem_aligned)

lemma length_series_map [simp]: "length (series_map d col) = length col"
  by (simp add: series_map_def)

lemma length_fillna [simp]: "length (fillna v col) = length col"
  by (simp add: fillna_def)

lemma feature_engineering_result:
  assumes level: "getitem (h df) (str ''level'') = Inr lv"
    and message: "getitem (h df) (str ''message'') = Inr (map Str msgs)"
    and len_lv: "length lv = length (index (h df))"
    and len_ms: "length msgs = length (index (h df))"
  shows "feature_engineering h df =
           Inr (h(df := (h df)\<lparr>columns :=
                  AList.update (str ''message_length'') (map (\<lambda>m. Num (int (length m))) msgs)
                    (AList.update (str ''level_score'')
                       (fillna (Num 0) (series_map level_mapping lv)) (columns (h df)))\<rparr>), df)"
proof -
  let ?scores = "fillna (Num 0) (series_map level_mapping lv)"
  let ?d1 = "(h df)\<lparr>columns := AList.update (str ''level_score'') ?scores (columns (h df))\<rparr>"
  let ?h1 = "h(df := ?d1)"
  have s1: "setitem h df (str ''level_score'') ?scores = Inr ?h1"
    by (rule setitem_aligned) (simp add: len_lv)
  have g1: "getitem (?h1 df) (str ''message'') = Inr (map Str msgs)"
    by (simp add: getitem_columns_update message)
  have s2: "setitem ?h1 df (str ''message_length'') (map (\<lambda>m. Num (int (length m))) msgs)
      = Inr (?h1(df := (?h1 df)\<lparr>columns := AList.update (str ''message_length'')
               (map (\<lambda>m. Num (int (length m))) msgs) (columns (?h1 df))\<rparr>))"
    by (rule setitem_aligned) (simp add: len_ms)
  show ?thesis
    unfolding feature_engineering_def
    by (simp only: level bind_err_simps s1 g1 apply_len_strs s2) simp
qed

lemma detect_anomalies_result:
  assumes X: "getitems (h df) [str ''level_score'', str ''message_length''] = Inr X"
    and pred: "fit_predict w c (Some 42) X = Inr pred"
    and len: "length pred = length (index (h df))"
  shows "detect_anomalies fit_predict w h df c =
           Inr (h(df := (h df)\<lparr>columns :=
                  AList.update (str ''is_anomaly'')
                    (map (\<lambda>p. Str (if p = - 1 then anomaly_label else normal_label)) pred)
                    (AList.update (str ''anomaly'') (map Num pred) (columns (h df)))\<rparr>), df)"
proof -
  let ?d1 = "(h df)\<lparr>columns := AList.update (str ''anomaly'') (map Num pred) (columns (h df))\<rparr>"
  let ?h1 = "h(df := ?d1)"
  let ?labels = "map (\<lambda>x. Str (if x = Num (- 1) then anomaly_label else normal_label)) (map Num pred)"
  have s1: "setitem h df (str ''anomaly'') (map Num pred) = Inr ?h1"
    by (rule setitem_aligned) (simp add: len)
  have g1: "getitem (?h1 df) (str ''anomaly'') = Inr (map Num pred)"
    by (simp add: getitem_columns_update)
  have s2: "setitem ?h1 df (str ''is_anomaly'') ?labels
      = Inr (?h1(df := (?h1 df)\<lparr>columns := AList.update (str ''is_anomaly'') ?labels (columns (?h1 df))\<rparr>))"
    by (rule setitem_aligned) (simp add: len)
  show ?thesis
    unfolding detect_anomalies_def
    by (simp only: X pred bind_err_simps s1 g1 s2) (simp add: comp_def)
qed

lemma labels_differ: "anomaly_label \<noteq> normal_label"
  by (simp add: anomaly_label_def normal_label_def)

lemma level_scores:
  "fillna (Num 0) (series_map level_mapping (map Str levels)) =
     map (\<lambda>l. Num (if l = str ''INFO'' then 1 else if l = str ''WARNING'' then 2
                    else if l = str ''ERROR'' then 3 else if l = str ''CRITICAL'' then 4 else 0))
       levels"
  by (simp add: fillna_def series_map_def level_mapping_def isna_def)

section \<open>The feature extractor\<close>

text \<open>
  Claim C6. On a frame whose \<open>level\<close> and \<open>message\<close> columns hold strings, one per row,
  \<open>feature_engineering\<close> returns and its \<open>level_score\<close> column holds, row by row, 1 for
  \<open>INFO\<close>, 2 for \<open>WARNING\<close>, 3 for \<open>ERROR\<close>, 4 for \<open>CRITICAL\<close> and 0 for any other level,
  and its \<open>message_length\<close> column holds the number of characters of the message. The
  instance after it has the rows \<open>CRITICAL\<close> with a message of 37 letters \<open>x\<close>, and
  \<open>DEBUG\<close>.
\<close>

theorem feature_mapping:
  assumes level: "getitem (h df) (str ''level'') = Inr (map Str levels)"
    and message: "getitem (h df) (str ''message'') = Inr (map Str messages)"
    and len_lv: "length levels = length (index (h df))"
    and len_ms: "length messages = length (index (h df))"
  shows "\<exists>h'. feature_engineering h df = Inr (h', df)
           \<and> getitem (h' df) (str ''level_score'') =
               Inr (map (\<lambda>l. Num (if l = str ''INFO'' then 1 else if l = str ''WARNING'' then 2
                                   else if l = str ''ERROR'' then 3
                                   else if l = str ''CRITICAL'' then 4 else 0)) levels)
           \<and> getitem (h' df) (str ''message_length'') =
               Inr (map (\<lambda>m. Num (int (length m))) messages)"
proof -
  have "feature_engineering h df =
      Inr (h(df := (h df)\<lparr>columns :=
             AList.update (str ''message_length'') (map (\<lambda>m. Num (int (length m))) messages)
               (AList.update (str ''level_score'')
                  (fillna (Num 0) (series_map level_mapping (map Str levels))) (columns (h df)))\<rparr>), df)"
    using level message len_lv len_ms by (intro feature_engineering_result) simp_all
  then show ?thesis
    by (simp add: getitem_def update_conv' level_scores)
qed

theorem feature_mapping_witness:
  "\<exists>h'. feature_engineering
          ((\<lambda>_. no_frame)(0 := \<lparr>index = [0, 1],
             columns = [(str ''timestamp'', [Stamp 1705314181000000000, Stamp 1705314185000000000]),
                        (str ''level'', [Str (str ''CRITICAL''), Str (str ''DEBUG'')]),
                        (str ''message'', [Str (replicate 37 120), Str (str ''cache warm'')])]\<rparr>))
          0 = Inr (h', 0)
      \<and> getitem (h' 0) (str ''level_score'') = Inr [Num 4, Num 0]
      \<and> getitem (h' 0) (str ''message_length'') = Inr [Num 37, Num 10]"
proof -
  let ?F = "\<lparr>index = [0, 1 :: nat],
             columns = [(str ''timestamp'', [Stamp 1705314181000000000, Stamp 1705314185000000000]),
                        (str ''level'', [Str (str ''CRITICAL''), Str (str ''DEBUG'')]),
                        (str ''message'', [Str (replicate 37 120), Str (str ''cache warm'')])]\<rparr>"
  let ?h = "(\<lambda>_. no_frame)(0 := ?F)"
  have level: "getitem (?h 0) (str ''level'') = Inr (map Str [str ''CRITICAL'', str ''DEBUG''])"
    by (simp add: getitem_def)
  have message: "getitem (?h 0) (str ''message'') = Inr (map Str [replicate 37 120, str ''cache warm''])"
    by (simp add: getitem_def)
  have ten: "length (str ''cache warm'') = 10"
    by (simp add: str_def)
  from feature_mapping [where h = ?h and df = 0, OF level message]
  show ?thesis
    by (simp add: ten)
qed

section \<open>The outlier detector\<close>

text \<open>
  Claim C1, as the code has it. When the feature columns exist and scikit-learn returns one
  prediction per row, \<open>detect_anomalies\<close> returns the same rows, with the predictions in
  the column \<open>anomaly\<close> and, in \<open>is_anomaly\<close>, the anomaly label exactly where the
  prediction is \<open>-1\<close> and the normal label elsewhere. These two columns are all it adds:
  the result holds no score.
\<close>

theorem detect_anomalies_rows:
  assumes X: "getitems (h df) [str ''level_score'', str ''message_length''] = Inr X"
    and pred: "fit_predict w contamination (Some 42) X = Inr pred"
    and len: "length pred = length (index (h df))"
  shows "\<exists>h'. detect_anomalies fit_predict w h df contamination = Inr (h', df)
           \<and> index (h' df) = index (h df)
           \<and> getitem (h' df) (str ''anomaly'') = Inr (map Num pred)
           \<and> getitem (h' df) (str ''is_anomaly'') =
               Inr (map (\<lambda>p. Str (if p = - 1 then anomaly_label else normal_label)) pred)
           \<and> anomaly_label \<noteq> normal_label
           \<and> fst ` set (columns (h' df)) =
               fst ` set (columns (h df)) \<union> {str ''anomaly'', str ''is_anomaly''}"
proof -
  from detect_anomalies_result [where fit_predict = fit_predict and w = w and c = contamination
      and h = h and df = df, OF X pred len]
  show ?thesis
    by (auto simp: getitem_def update_conv' dom_update labels_differ)
qed

theorem detect_anomalies_rows_witness:
  "\<exists>h'. detect_anomalies (\<lambda>w c seed X. Inr [1, 1, - 1]) ()
          ((\<lambda>_. no_frame)(0 := \<lparr>index = [0, 1, 2],
             columns = [(str ''level_score'', [Num 1, Num 1, Num 4]),
                        (str ''message_length'', [Num 15, Num 14, Num 150])]\<rparr>))
          0 (1 / 10) = Inr (h', 0)
      \<and> index (h' 0) = [0, 1, 2]
      \<and> getitem (h' 0) (str ''anomaly'') = Inr [Num 1, Num 1, Num (- 1)]
      \<and> getitem (h' 0) (str ''is_anomaly'') =
          Inr [Str normal_label, Str normal_label, Str anomaly_label]"
proof -
  let ?F = "\<lparr>index = [0, 1, 2 :: nat],
             columns = [(str ''level_score'', [Num 1, Num 1, Num 4]),
                        (str ''message_length'', [Num 15, Num 14, Num 150])]\<rparr>"
  let ?h = "(\<lambda>_. no_frame)(0 := ?F)"
  let ?lib = "\<lambda>(w :: unit) (c :: real) (seed :: nat option) (X :: dataframe).
                (Inr [1, 1, - 1] :: pyerror + int list)"
  have X: "getitems (?h 0) [str ''level_score'', str ''message_length''] = Inr ?F"
    by (simp add: getitem_def)
  have pred: "?lib () (1 / 10) (Some 42) ?F = Inr [1, 1, - 1]"
    by simp
  from detect_anomalies_rows [where h = ?h and df = 0 and fit_predict = ?lib and w = "()"
      and contamination = "1 / 10", OF X pred]
  obtain h' where run: "detect_anomalies ?lib () ?h 0 (1 / 10) = Inr (h', 0)"
    and rows: "index (h' 0) = index (?h 0)"
    and anomaly: "getitem (h' 0) (str ''anomaly'') = Inr (map Num [1, 1, - 1])"
    and labels: "getitem (h' 0) (str ''is_anomaly'') =
        Inr (map (\<lambda>p. Str (if p = - 1 then anomaly_label else normal_label)) [1, 1, - 1 :: int])"
    by auto
  show ?thesis
    using run rows anomaly labels by (intro exI [of _ h']) simp
qed

text \<open>
  A run in which the library flags the third of three rows: the only number the detector
  returns for that row is the prediction \<open>-1\<close>, which is not in the interval from 0 to 1.
\<close>

theorem detect_anomalies_score_counterexample:
  "detect_anomalies (\<lambda>w c seed X. Inr [1, 1, - 1]) ()
     ((\<lambda>_. no_frame)(0 := \<lparr>index = [0, 1, 2],
        columns = [(str ''level_score'', [Num 1, Num 1, Num 4]),
                   (str ''message_length'', [Num 15, Num 14, Num 150])]\<rparr>))
     0 (1 / 10)
   = Inr ((\<lambda>_. no_frame)(0 := \<lparr>index = [0, 1, 2],
        columns = [(str ''level_score'', [Num 1, Num 1, Num 4]),
                   (str ''message_length'', [Num 15, Num 14, Num 150]),
                   (str ''anomaly'', [Num 1, Num 1, Num (- 1)]),
                   (str ''is_anomaly'', [Str normal_label, Str normal_label, Str anomaly_label])]\<rparr>),
          0)
   \<and> \<not> (0 < (- 1 :: int))"
  by (simp add: detect_anomalies_def getitem_def setitem_def frame_setitem_def fun_upd_twist)

text \<open>
  Claim C3. The code passes the fixed seed 42. For a library whose seeded runs do not
  depend on the state of the process-wide random generator, two runs of
  \<open>detect_anomalies\<close> on the same store, frame and contamination give the same result,
  predictions and labels included, whatever that state is in each run. The instance after
  it uses a library whose unseeded runs do depend on the state.
\<close>

theorem detect_anomalies_deterministic:
  assumes "\<forall>c s X w1 w2. fit_predict w1 c (Some s) X = fit_predict w2 c (Some s) X"
  shows "detect_anomalies fit_predict w1 h df contamination
           = detect_anomalies fit_predict w2 h df contamination"
proof -
  have "\<And>X. fit_predict w1 contamination (Some 42) X = fit_predict w2 contamination (Some 42) X"
    using assms by blast
  then show ?thesis
    by (simp add: detect_anomalies_def)
qed

theorem detect_anomalies_deterministic_witness:
  "(let lib = (\<lambda>(w :: nat) (c :: real) (seed :: nat option) (X :: dataframe).
                 case seed of
                   None \<Rightarrow> (Inr (replicate (length (index X)) (if even w then 1 else - 1)) :: pyerror + int list)
                 | Some s \<Rightarrow> Inr (replicate (length (index X)) (if even s then 1 else - 1)));
        h = (\<lambda>_. no_frame)(0 := \<lparr>index = [0, 1],
               columns = [(str ''level_score'', [Num 1, Num 4]),
                          (str ''message_length'', [Num 15, Num 150])]\<rparr>)
    in (\<forall>c s X w1 w2. lib w1 c (Some s) X = lib w2 c (Some s) X)
       \<and> lib 0 (1 / 10) None (h 0) \<noteq> lib 1 (1 / 10) None (h 0)
       \<and> detect_anomalies lib 0 h 0 (1 / 10) = detect_anomalies lib 1 h 0 (1 / 10))"
proof -
  let ?lib = "\<lambda>(w :: nat) (c :: real) (seed :: nat option) (X :: dataframe).
                 case seed of
                   None \<Rightarrow> (Inr (replicate (length (index X)) (if even w then 1 else - 1)) :: pyerror + int list)
                 | Some s \<Rightarrow> Inr (replicate (length (index X)) (if even s then 1 else - 1))"
  have seeded: "\<forall>c s X w1 w2. ?lib w1 c (Some s) X = ?lib w2 c (Some s) X"
    by simp
  from detect_anomalies_deterministic [of ?lib, OF seeded]
  show ?thesis
    by (simp add: Let_def)
qed

section \<open>What the two stages leave unchanged\<close>

lemma feature_engineering_Inr:
  assumes wf: "wf_frame (h df)"
    and run: "feature_engineering h df = Inr (h', df')"
  shows "\<exists>lv lens. df' = df
           \<and> h' = h(df := (h df)\<lparr>columns :=
                  AList.update (str ''message_length'') lens
                    (AList.update (str ''level_score'') lv (columns (h df)))\<rparr>)"
proof -
  from run obtain lv where level: "getitem (h df) (str ''level'') = Inr lv"
    by (cases "getitem (h df) (str ''level'')") (simp_all add: feature_engineering_def)
  let ?scores = "fillna (Num 0) (series_map level_mapping lv)"
  let ?h1 = "h(df := (h df)\<lparr>columns := AList.update (str ''level_score'') ?scores (columns (h df))\<rparr>)"
  have s1: "setitem h df (str ''level_score'') ?scores = Inr ?h1"
    using wf_frame_getitem [OF wf level] by (intro setitem_aligned) simp
  have g1: "getitem (?h1 df) (str ''message'') = getitem (h df) (str ''message'')"
    by (simp add: getitem_columns_update)
  note run1 = run [unfolded feature_engineering_def level bind_err_simps s1 g1]
  from run1 obtain ms where message: "getitem (h df) (str ''message'') = Inr ms"
    by (cases "getitem (h df) (str ''message'')") simp_all
  note run2 = run1 [unfolded message bind_err_simps]
  from run2 obtain lens where lens: "apply_len ms = Inr lens"
    by (cases "apply_len ms") simp_all
  have "length lens = length (index (h df))"
    using apply_len_Inr [OF lens] wf_frame_getitem [OF wf message] by simp
  then have s2: "setitem ?h1 df (str ''message_length'') lens
      = Inr (?h1(df := (?h1 df)\<lparr>columns := AList.update (str ''message_length'') lens
               (columns (?h1 df))\<rparr>))"
    by (intro setitem_aligned) simp
  from run2 [unfolded lens bind_err_simps s2]
  have "df' = df \<and> h' = h(df := (h df)\<lparr>columns :=
                  AList.update (str ''message_length'') lens
                    (AList.update (str ''level_score'') ?scores (columns (h df)))\<rparr>)"
    by auto
  then show ?thesis by blast
qed

lemma detect_anomalies_Inr:
  assumes rows: "index (h df) \<noteq> []"
    and run: "detect_anomalies fit_predict w h df c = Inr (h', df')"
  shows "\<exists>X pred. getitems (h df) [str ''level_score'', str ''message_length''] = Inr X
           \<and> fit_predict w c (Some 42) X = Inr pred
           \<and> length pred = length (index (h df))
           \<and> df' = df
           \<and> h' = h(df := (h df)\<lparr>columns :=
                  AList.update (str ''is_anomaly'')
                    (map (\<lambda>p. Str (if p = - 1 then anomaly_label else normal_label)) pred)
                    (AList.update (str ''anomaly'') (map Num pred) (columns (h df)))\<rparr>)"
proof -
  let ?names = "[str ''level_score'', str ''message_length'']"
  from run obtain X where X: "getitems (h df) ?names = Inr X"
    by (cases "getitems (h df) ?names") (simp_all add: detect_anomalies_def del: getitems.simps)
  note run1 = run [unfolded detect_anomalies_def X bind_err_simps]
  from run1 obtain pred where pred: "fit_predict w c (Some 42) X = Inr pred"
    by (cases "fit_predict w c (Some 42) X") simp_all
  note run2 = run1 [unfolded pred bind_err_simps]
  have len: "length pred = length (index (h df))"
  proof (rule ccontr)
    assume "length pred \<noteq> length (index (h df))"
    then have "setitem h df (str ''anomaly'') (map Num pred) = Inl ValueError"
      using rows by (simp add: setitem_def frame_setitem_def)
    with run2 show False
      by simp
  qed
  from run have "df' = df
           \<and> h' = h(df := (h df)\<lparr>columns :=
                  AList.update (str ''is_anomaly'')
                    (map (\<lambda>p. Str (if p = - 1 then anomaly_label else normal_label)) pred)
                    (AList.update (str ''anomaly'') (map Num pred) (columns (h df)))\<rparr>)"
    unfolding detect_anomalies_result [where fit_predict = fit_predict and w = w and c = c
        and h = h and df = df, OF X pred len]
    by auto
  with X pred len show ?thesis
    by blast
qed

lemma update_two_frame:
  fixes h :: heap
  assumes h': "h' = h(df := (h df)\<lparr>columns := AList.update b vb (AList.update a va (columns (h df)))\<rparr>)"
  shows "(\<forall>r. r \<noteq> df \<longrightarrow> h' r = h r) \<and> index (h' df) = index (h df)
      \<and> (\<forall>name. name \<noteq> a \<and> name \<noteq> b \<longrightarrow> getitem (h' df) name = getitem (h df) name)
      \<and> fst ` set (columns (h' df)) = fst ` set (columns (h df)) \<union> {a, b}"
proof (intro conjI)
  show "\<forall>r. r \<noteq> df \<longrightarrow> h' r = h r"
    unfolding h' by simp
  show "index (h' df) = index (h df)"
    unfolding h' by simp
  show "\<forall>name. name \<noteq> a \<and> name \<noteq> b \<longrightarrow> getitem (h' df) name = getitem (h df) name"
    unfolding h' by (simp add: getitem_def update_conv')
  show "fst ` set (columns (h' df)) = fst ` set (columns (h df)) \<union> {a, b}"
    unfolding h' by (auto simp: dom_update)
qed

text \<open>
  Claim C10. \<open>feature_engineering\<close> and \<open>detect_anomalies\<close> return the reference they were
  given and change the store at that address only. A successful call of
  \<open>feature_engineering\<close> on a frame whose columns all have one cell per row, and a
  successful call of \<open>detect_anomalies\<close> on a frame with at least one row, keep the row
  labels and every column other than the two they assign, the columns \<open>timestamp\<close>,
  \<open>level\<close> and \<open>message\<close> among them; the column names afterwards are the names before
  together with \<open>level_score\<close>, \<open>message_length\<close>, respectively \<open>anomaly\<close>, \<open>is_anomaly\<close>.
\<close>

theorem columns_only_added:
  "(wf_frame (h df) \<and> feature_engineering h df = Inr (h', df') \<longrightarrow>
      df' = df \<and> (\<forall>r. r \<noteq> df \<longrightarrow> h' r = h r) \<and> index (h' df) = index (h df)
      \<and> getitem (h' df) (str ''timestamp'') = getitem (h df) (str ''timestamp'')
      \<and> getitem (h' df) (str ''level'') = getitem (h df) (str ''level'')
      \<and> getitem (h' df) (str ''message'') = getitem (h df) (str ''message'')
      \<and> (\<forall>name. name \<noteq> str ''level_score'' \<and> name \<noteq> str ''message_length'' \<longrightarrow>
             getitem (h' df) name = getitem (h df) name)
      \<and> fst ` set (columns (h' df)) =
          fst ` set (columns (h df)) \<union> {str ''level_score'', str ''message_length''})
   \<and> (index (g d) \<noteq> [] \<and> detect_anomalies fit_predict w g d c = Inr (g', d') \<longrightarrow>
      d' = d \<and> (\<forall>r. r \<noteq> d \<longrightarrow> g' r = g r) \<and> index (g' d) = index (g d)
      \<and> getitem (g' d) (str ''timestamp'') = getitem (g d) (str ''timestamp'')
      \<and> getitem (g' d) (str ''level'') = getitem (g d) (str ''level'')
      \<and> getitem (g' d) (str ''message'') = getitem (g d) (str ''message'')
      \<and> (\<forall>name. name \<noteq> str ''anomaly'' \<and> name \<noteq> str ''is_anomaly'' \<longrightarrow>
             getitem (g' d) name = getitem (g d) name)
      \<and> fst ` set (columns (g' d)) =
          fst ` set (columns (g d)) \<union> {str ''anomaly'', str ''is_anomaly''})"
proof (rule conjI; rule impI; erule conjE)
  assume wf: "wf_frame (h df)" and run: "feature_engineering h df = Inr (h', df')"
  from feature_engineering_Inr [OF wf run]
  obtain lv lens where same: "df' = df"
    and h': "h' = h(df := (h df)\<lparr>columns :=
                  AList.update (str ''message_length'') lens
                    (AList.update (str ''level_score'') lv (columns (h df)))\<rparr>)"
    by blast
  note frame = update_two_frame [OF h']
  from frame have others: "\<And>name. name \<noteq> str ''level_score'' \<Longrightarrow> name \<noteq> str ''message_length''
      \<Longrightarrow> getitem (h' df) name = getitem (h df) name"
    by blast
  have "getitem (h' df) (str ''timestamp'') = getitem (h df) (str ''timestamp'')"
    and "getitem (h' df) (str ''level'') = getitem (h df) (str ''level'')"
    and "getitem (h' df) (str ''message'') = getitem (h df) (str ''message'')"
    by (rule others; simp)+
  with same frame show "df' = df \<and> (\<forall>r. r \<noteq> df \<longrightarrow> h' r = h r) \<and> index (h' df) = index (h df)
      \<and> getitem (h' df) (str ''timestamp'') = getitem (h df) (str ''timestamp'')
      \<and> getitem (h' df) (str ''level'') = getitem (h df) (str ''level'')
      \<and> getitem (h' df) (str ''message'') = getitem (h df) (str ''message'')
      \<and> (\<forall>name. name \<noteq> str ''level_score'' \<and> name \<noteq> str ''message_length'' \<longrightarrow>
             getitem (h' df) name = getitem (h df) name)
      \<and> fst ` set (columns (h' df)) =
          fst ` set (columns (h df)) \<union> {str ''level_score'', str ''message_length''}"
    by blast
next
  assume rows: "index (g d) \<noteq> []" and run: "detect_anomalies fit_predict w g d c = Inr (g', d')"
  from detect_anomalies_Inr [where fit_predict = fit_predict and w = w and c = c and h = g
      and df = d and h' = g' and df' = d', OF rows run]
  obtain pred where same: "d' = d"
    and g': "g' = g(d := (g d)\<lparr>columns :=
                  AList.update (str ''is_anomaly'')
                    (map (\<lambda>p. Str (if p = - 1 then anomaly_label else normal_label)) pred)
                    (AList.update (str ''anomaly'') (map Num pred) (columns (g d)))\<rparr>)"
    by blast
  note frame = update_two_frame [OF g']
  from frame have others: "\<And>name. name \<noteq> str ''anomaly'' \<Longrightarrow> name \<noteq> str ''is_anomaly''
      \<Longrightarrow> getitem (g' d) name = getitem (g d) name"
    by blast
  have "getitem (g' d) (str ''timestamp'') = getitem (g d) (str ''timestamp'')"
    and "getitem (g' d) (str ''level'') = getitem (g d) (str ''level'')"
    and "getitem (g' d) (str ''message'') = getitem (g d) (str ''message'')"
    by (rule others; simp)+
  with same frame show "d' = d \<and> (\<forall>r. r \<noteq> d \<longrightarrow> g' r = g r) \<and> index (g' d) = index (g d)
      \<and> getitem (g' d) (str ''timestamp'') = getitem (g d) (str ''timestamp'')
      \<and> getitem (g' d) (str ''level'') = getitem (g d) (str ''level'')
      \<and> getitem (g' d) (str ''message'') = getitem (g d) (str ''message'')
      \<and> (\<forall>name. name \<noteq> str ''anomaly'' \<and> name \<noteq> str ''is_anomaly'' \<longrightarrow>
             getitem (g' d) name = getitem (g d) name)
      \<and> fst ` set (columns (g' d)) =
          fst ` set (columns (g d)) \<union> {str ''anomaly'', str ''is_anomaly''}"
    by blast
qed

theorem columns_only_added_witness:
  "(let F = \<lparr>index = [0, 1],
             columns = [(str ''timestamp'', [Stamp 1705314181000000000, Stamp 1705314185000000000]),
                        (str ''level'', [Str (str ''INFO''), Str (str ''CRITICAL'')]),
                        (str ''message'', [Str (str ''started''), Str (str ''disk failure'')])]\<rparr>;
        h = (\<lambda>_. no_frame)(0 := F)
    in wf_frame (h 0) \<and> index (h 0) \<noteq> []
     \<and> (\<exists>h1 h2. feature_engineering h 0 = Inr (h1, 0)
           \<and> detect_anomalies (\<lambda>w c seed X. Inr [1, - 1]) () h1 0 (1 / 10) = Inr (h2, 0)
           \<and> (\<forall>r. r \<noteq> 0 \<longrightarrow> h2 r = h r)
           \<and> index (h2 0) = [0, 1]
           \<and> getitem (h2 0) (str ''timestamp'') = Inr [Stamp 1705314181000000000, Stamp 1705314185000000000]
           \<and> getitem (h2 0) (str ''level'') = Inr [Str (str ''INFO''), Str (str ''CRITICAL'')]
           \<and> getitem (h2 0) (str ''message'') = Inr [Str (str ''started''), Str (str ''disk failure'')]
           \<and> fst ` set (columns (h2 0)) =
               {str ''timestamp'', str ''level'', str ''message'', str ''level_score'',
                str ''message_length'', str ''anomaly'', str ''is_anomaly''}))"
proof -
  let ?F = "\<lparr>index = [0, 1 :: nat],
             columns = [(str ''timestamp'', [Stamp 1705314181000000000, Stamp 1705314185000000000]),
                        (str ''level'', [Str (str ''INFO''), Str (str ''CRITICAL'')]),
                        (str ''message'', [Str (str ''started''), Str (str ''disk failure'')])]\<rparr>"
  let ?h = "(\<lambda>_. no_frame)(0 := ?F)"
  let ?lib = "\<lambda>(w :: unit) (c :: real) (seed :: nat option) (X :: dataframe).
                (Inr [1, - 1] :: pyerror + int list)"
  have wf: "wf_frame (?h 0)"
    by (simp add: wf_frame_def)
  have rows: "index (?h 0) \<noteq> []"
    by simp
  let ?h1 = "(\<lambda>_. no_frame)(0 := \<lparr>index = [0, 1 :: nat],
             columns = [(str ''timestamp'', [Stamp 1705314181000000000, Stamp 1705314185000000000]),
                        (str ''level'', [Str (str ''INFO''), Str (str ''CRITICAL'')]),
                        (str ''message'', [Str (str ''started''), Str (str ''disk failure'')]),
                        (str ''level_score'', [Num 1, Num 4]),
                        (str ''message_length'', [Num 7, Num 12])]\<rparr>)"
  let ?h2 = "(\<lambda>_. no_frame)(0 := \<lparr>index = [0, 1 :: nat],
             columns = [(str ''timestamp'', [Stamp 1705314181000000000, Stamp 1705314185000000000]),
                        (str ''level'', [Str (str ''INFO''), Str (str ''CRITICAL'')]),
                        (str ''message'', [Str (str ''started''), Str (str ''disk failure'')]),
                        (str ''level_score'', [Num 1, Num 4]),
                        (str ''message_length'', [Num 7, Num 12]),
                        (str ''anomaly'', [Num 1, Num (- 1)]),
                        (str ''is_anomaly'', [Str normal_label, Str anomaly_label])]\<rparr>)"
  have fe: "feature_engineering ?h 0 = Inr (?h1, 0)"
    by (simp add: feature_engineering_def getitem_def setitem_def frame_setitem_def fillna_def
        series_map_def level_mapping_def isna_def) (simp add: str_def)
  have det: "detect_anomalies ?lib () ?h1 0 (1 / 10) = Inr (?h2, 0)"
    by (simp add: detect_anomalies_def getitem_def setitem_def frame_setitem_def)
  have rows1: "index (?h1 0) \<noteq> []"
    by simp
  note fe_frame = columns_only_added [where h = ?h and df = 0 and h' = ?h1 and df' = 0,
      THEN conjunct1, rule_format, OF conjI [OF wf fe]]
  note det_frame = columns_only_added [where g = ?h1 and d = 0 and g' = ?h2 and d' = 0
      and fit_predict = ?lib and w = "()" and c = "1 / 10",
      THEN conjunct2, rule_format, OF conjI [OF rows1 det]]
  note c2 = conjunct2
  note fe_rest = fe_frame [THEN c2, THEN conjunct1]
    and fe_index = fe_frame [THEN c2, THEN c2, THEN conjunct1]
    and fe_ts = fe_frame [THEN c2, THEN c2, THEN c2, THEN conjunct1]
    and fe_level = fe_frame [THEN c2, THEN c2, THEN c2, THEN c2, THEN conjunct1]
    and fe_message = fe_frame [THEN c2, THEN c2, THEN c2, THEN c2, THEN c2, THEN conjunct1]
    and fe_names = fe_frame [THEN c2, THEN c2, THEN c2, THEN c2, THEN c2, THEN c2, THEN c2]
  note det_rest = det_frame [THEN c2, THEN conjunct1]
    and det_index = det_frame [THEN c2, THEN c2, THEN conjunct1]
    and det_ts = det_frame [THEN c2, THEN c2, THEN c2, THEN conjunct1]
    and det_level = det_frame [THEN c2, THEN c2, THEN c2, THEN c2, THEN conjunct1]
    and det_message = det_frame [THEN c2, THEN c2, THEN c2, THEN c2, THEN c2, THEN conjunct1]
    and det_names = det_frame [THEN c2, THEN c2, THEN c2, THEN c2, THEN c2, THEN c2, THEN c2]
  have a: "\<forall>r. r \<noteq> 0 \<longrightarrow> ?h2 r = ?h r"
    using fe_rest det_rest by simp
  have b: "index (?h2 0) = [0, 1]"
    using fe_index det_index by simp
  have c: "getitem (?h2 0) (str ''timestamp'') = Inr [Stamp 1705314181000000000, Stamp 1705314185000000000]"
    "getitem (?h2 0) (str ''level'') = Inr [Str (str ''INFO''), Str (str ''CRITICAL'')]"
    "getitem (?h2 0) (str ''message'') = Inr [Str (str ''started''), Str (str ''disk failure'')]"
    unfolding det_ts det_level det_message fe_ts fe_level fe_message
    by (simp_all add: getitem_def)
  have d: "fst ` set (columns (?h2 0)) =
               {str ''timestamp'', str ''level'', str ''message'', str ''level_score'',
                str ''message_length'', str ''anomaly'', str ''is_anomaly''}"
    unfolding det_names fe_names by auto
  show ?thesis
    unfolding Let_def
    by (intro conjI exI [of _ ?h1] exI [of _ ?h2] wf rows fe det a b c d)
qed

section \<open>Order through the pipeline\<close>

lemma parse_rows_valid:
  assumes "\<forall>line \<in> set logs. length (split_sep 32 3 (strip line)) = 4"
  shows "parse_rows logs =
           map (\<lambda>line. [Str (split_sep 32 3 (strip line) ! 0 @ str '' ''
                                @ split_sep 32 3 (strip line) ! 1),
                           Str (split_sep 32 3 (strip line) ! 2),
                           Str (split_sep 32 3 (strip line) ! 3)]) logs"
  using assms by (induction logs) (simp_all add: Let_def)

lemma filter_upt_all: "\<forall>i < n. P i \<Longrightarrow> filter P [0..<n] = [0..<n]"
  by (simp add: filter_id_conv)

lemma parse_logs_valid:
  assumes valid: "\<forall>line \<in> set logs. length (split_sep 32 3 (strip line)) = 4"
    and ts: "ts = map (\<lambda>line. Str (split_sep 32 3 (strip line) ! 0 @ str '' ''
                                       @ split_sep 32 3 (strip line) ! 1)) logs"
    and parsed: "\<forall>i < length logs. td ts i \<noteq> None"
  shows "parse_logs td logs =
           Inr \<lparr>index = [0..<length logs],
                columns =
                  [(str ''timestamp'',
                    map (\<lambda>i. case td ts i of None \<Rightarrow> NaT | Some t \<Rightarrow> Stamp t) [0..<length logs]),
                   (str ''level'', map (\<lambda>line. Str (split_sep 32 3 (strip line) ! 2)) logs),
                   (str ''message'', map (\<lambda>line. Str (split_sep 32 3 (strip line) ! 3)) logs)]\<rparr>"
proof -
  let ?row = "\<lambda>line. [Str (split_sep 32 3 (strip line) ! 0 @ str '' ''
                                @ split_sep 32 3 (strip line) ! 1),
                           Str (split_sep 32 3 (strip line) ! 2),
                           Str (split_sep 32 3 (strip line) ! 3)]"
  have rows: "parse_rows logs = map ?row logs"
    by (rule parse_rows_valid [OF valid])
  have ts': "ts = map (\<lambda>row. row ! 0) (parse_rows logs)"
    by (simp add: rows ts)
  have kept: "[0..<length logs] = filter (\<lambda>i. td ts i \<noteq> None) [0..<length (parse_rows logs)]"
    using parsed by (simp add: rows filter_upt_all)
  have lv: "map (\<lambda>i. parse_rows logs ! i ! 1) [0..<length logs]
              = map (\<lambda>line. Str (split_sep 32 3 (strip line) ! 2)) logs"
    by (rule nth_equalityI) (simp_all add: rows)
  have ms: "map (\<lambda>i. parse_rows logs ! i ! 2) [0..<length logs]
              = map (\<lambda>line. Str (split_sep 32 3 (strip line) ! 3)) logs"
    by (rule nth_equalityI) (simp_all add: rows)
  show ?thesis
    unfolding parse_logs_rows [where data = "parse_rows logs" and logs = logs and ts = ts
        and td = td and kept = "[0..<length logs]", OF refl ts' kept] lv ms ..
qed

text \<open>
  Claim C7. Take N lines that each have four fields and whose timestamps pandas parses.
  \<open>parse_logs\<close> returns N rows labelled 0 to N-1, and \<open>feature_engineering\<close> returns on
  them: the i-th cell of \<open>level\<close>, \<open>message\<close>, \<open>level_score\<close> and \<open>message_length\<close> is
  computed from the i-th line. The detector hands these N feature vectors, in this order, to
  scikit-learn; when that returns N predictions, \<open>detect_anomalies\<close> returns N rows, the
  i-th with the fields of the i-th line and the i-th prediction and its label. For N at
  least 1 these are its only results: whenever it returns, scikit-learn returned N
  predictions.
\<close>

theorem pipeline_positions:
  fixes logs :: "pystr list"
  defines "field \<equiv> \<lambda>k line. split_sep 32 3 (strip line) ! k"
  defines "score \<equiv> \<lambda>l. Num (if l = str ''INFO'' then 1 else if l = str ''WARNING'' then 2
                               else if l = str ''ERROR'' then 3
                               else if l = str ''CRITICAL'' then 4 else 0)"
  defines "label \<equiv> \<lambda>p :: int. Str (if p = - 1 then anomaly_label else normal_label)"
  assumes valid: "\<forall>line \<in> set logs. length (split_sep 32 3 (strip line)) = 4"
    and ts: "ts = map (\<lambda>line. Str (field 0 line @ str '' '' @ field 1 line)) logs"
    and parsed: "\<forall>i < length logs. td ts i \<noteq> None"
  shows "\<exists>parsed h1 X.
      parse_logs td logs = Inr parsed
    \<and> index parsed = [0..<length logs]
    \<and> feature_engineering (h(df := parsed)) df = Inr (h1, df)
    \<and> index (h1 df) = [0..<length logs]
    \<and> getitem (h1 df) (str ''level'') = Inr (map (\<lambda>line. Str (field 2 line)) logs)
    \<and> getitem (h1 df) (str ''message'') = Inr (map (\<lambda>line. Str (field 3 line)) logs)
    \<and> getitem (h1 df) (str ''level_score'') = Inr (map (\<lambda>line. score (field 2 line)) logs)
    \<and> getitem (h1 df) (str ''message_length'') =
        Inr (map (\<lambda>line. Num (int (length (field 3 line)))) logs)
    \<and> getitems (h1 df) [str ''level_score'', str ''message_length''] = Inr X
    \<and> (\<forall>pred. fit_predict w c (Some 42) X = Inr pred \<and> length pred = length logs \<longrightarrow>
          (\<exists>h2. detect_anomalies fit_predict w h1 df c = Inr (h2, df)
             \<and> index (h2 df) = [0..<length logs]
             \<and> getitem (h2 df) (str ''level'') = Inr (map (\<lambda>line. Str (field 2 line)) logs)
             \<and> getitem (h2 df) (str ''message'') = Inr (map (\<lambda>line. Str (field 3 line)) logs)
             \<and> getitem (h2 df) (str ''level_score'') = Inr (map (\<lambda>line. score (field 2 line)) logs)
             \<and> getitem (h2 df) (str ''message_length'') =
                 Inr (map (\<lambda>line. Num (int (length (field 3 line)))) logs)
             \<and> getitem (h2 df) (str ''anomaly'') = Inr (map Num pred)
             \<and> getitem (h2 df) (str ''is_anomaly'') = Inr (map label pred)))
    \<and> (\<forall>h2 df2. logs \<noteq> [] \<and> detect_anomalies fit_predict w h1 df c = Inr (h2, df2) \<longrightarrow>
          (\<exists>pred. fit_predict w c (Some 42) X = Inr pred \<and> length pred = length logs))"
proof -
  let ?n = "length logs"
  let ?stamps = "map (\<lambda>i. case td ts i of None \<Rightarrow> NaT | Some t \<Rightarrow> Stamp t) [0..<?n]"
  let ?lv = "map (\<lambda>line. field 2 line) logs"
  let ?ms = "map (\<lambda>line. field 3 line) logs"
  let ?parsed = "\<lparr>index = [0..<?n],
                 columns = [(str ''timestamp'', ?stamps), (str ''level'', map Str ?lv),
                            (str ''message'', map Str ?ms)]\<rparr>"
  let ?scores = "map (\<lambda>line. score (field 2 line)) logs"
  let ?lens = "map (\<lambda>line. Num (int (length (field 3 line)))) logs"
  let ?F1 = "\<lparr>index = [0..<?n],
             columns = [(str ''timestamp'', ?stamps), (str ''level'', map Str ?lv),
                        (str ''message'', map Str ?ms), (str ''level_score'', ?scores),
                        (str ''message_length'', ?lens)]\<rparr>"
  let ?h0 = "h(df := ?parsed)"
  let ?h1 = "h(df := ?F1)"
  let ?X = "\<lparr>index = [0..<?n],
            columns = [(str ''level_score'', ?scores), (str ''message_length'', ?lens)]\<rparr>"
  have parse: "parse_logs td logs = Inr ?parsed"
    using parse_logs_valid [where td = td and ts = ts and logs = logs,
        OF valid ts [unfolded field_def] parsed]
    by (simp add: field_def comp_def)
  have "feature_engineering ?h0 df =
      Inr (?h0(df := (?h0 df)\<lparr>columns :=
             AList.update (str ''message_length'') (map (\<lambda>m. Num (int (length m))) ?ms)
               (AList.update (str ''level_score'')
                  (fillna (Num 0) (series_map level_mapping (map Str ?lv))) (columns (?h0 df)))\<rparr>), df)"
    by (rule feature_engineering_result) (simp_all add: getitem_def)
  moreover have "fillna (Num 0) (series_map level_mapping (map (\<lambda>x. Str (field 2 x)) logs)) = ?scores"
    using level_scores [of "map (field 2) logs"] by (simp add: comp_def score_def)
  ultimately have fe: "feature_engineering ?h0 df = Inr (?h1, df)"
    by (simp add: comp_def)
  have X: "getitems (?h1 df) [str ''level_score'', str ''message_length''] = Inr ?X"
    by (simp add: getitem_def)
  have det: "\<forall>pred. fit_predict w c (Some 42) ?X = Inr pred \<and> length pred = ?n \<longrightarrow>
          (\<exists>h2. detect_anomalies fit_predict w ?h1 df c = Inr (h2, df)
             \<and> index (h2 df) = [0..<?n]
             \<and> getitem (h2 df) (str ''level'') = Inr (map (\<lambda>line. Str (field 2 line)) logs)
             \<and> getitem (h2 df) (str ''message'') = Inr (map (\<lambda>line. Str (field 3 line)) logs)
             \<and> getitem (h2 df) (str ''level_score'') = Inr ?scores
             \<and> getitem (h2 df) (str ''message_length'') = Inr ?lens
             \<and> getitem (h2 df) (str ''anomaly'') = Inr (map Num pred)
             \<and> getitem (h2 df) (str ''is_anomaly'') = Inr (map label pred))"
  proof (intro allI impI, elim conjE)
    fix pred
    assume pred: "fit_predict w c (Some 42) ?X = Inr pred" and len: "length pred = ?n"
    have "length pred = length (index (?h1 df))"
      using len by simp
    from detect_anomalies_result [where fit_predict = fit_predict and w = w and c = c
        and h = ?h1 and df = df, OF X pred this]
    show "\<exists>h2. detect_anomalies fit_predict w ?h1 df c = Inr (h2, df)
             \<and> index (h2 df) = [0..<?n]
             \<and> getitem (h2 df) (str ''level'') = Inr (map (\<lambda>line. Str (field 2 line)) logs)
             \<and> getitem (h2 df) (str ''message'') = Inr (map (\<lambda>line. Str (field 3 line)) logs)
             \<and> getitem (h2 df) (str ''level_score'') = Inr ?scores
             \<and> getitem (h2 df) (str ''message_length'') = Inr ?lens
             \<and> getitem (h2 df) (str ''anomaly'') = Inr (map Num pred)
             \<and> getitem (h2 df) (str ''is_anomaly'') = Inr (map label pred)"
      by (simp add: getitem_def update_conv' label_def comp_def)
  qed
  have i0: "index ?parsed = [0..<?n]" and i1: "index (?h1 df) = [0..<?n]"
    by simp_all
  have g1: "getitem (?h1 df) (str ''level'') = Inr (map (\<lambda>line. Str (field 2 line)) logs)"
    "getitem (?h1 df) (str ''message'') = Inr (map (\<lambda>line. Str (field 3 line)) logs)"
    "getitem (?h1 df) (str ''level_score'') = Inr ?scores"
    "getitem (?h1 df) (str ''message_length'') = Inr ?lens"
    by (simp_all add: getitem_def comp_def)
  have converse: "\<forall>h2 df2. logs \<noteq> [] \<and> detect_anomalies fit_predict w ?h1 df c = Inr (h2, df2) \<longrightarrow>
          (\<exists>pred. fit_predict w c (Some 42) ?X = Inr pred \<and> length pred = ?n)"
  proof (intro allI impI, elim conjE)
    fix h2 df2
    assume some: "logs \<noteq> []" and run: "detect_anomalies fit_predict w ?h1 df c = Inr (h2, df2)"
    have rows: "index (?h1 df) \<noteq> []"
      using some by simp
    from detect_anomalies_Inr [where fit_predict = fit_predict and w = w and c = c
        and h = ?h1 and df = df and h' = h2 and df' = df2, OF rows run]
    obtain X' pred where "getitems (?h1 df) [str ''level_score'', str ''message_length''] = Inr X'"
      and "fit_predict w c (Some 42) X' = Inr pred"
      and "length pred = length (index (?h1 df))"
      by blast
    then have "fit_predict w c (Some 42) ?X = Inr pred \<and> length pred = ?n"
      using X by simp
    then show "\<exists>pred. fit_predict w c (Some 42) ?X = Inr pred \<and> length pred = ?n"
      by blast
  qed
  show ?thesis
    by (intro exI [of _ ?parsed] exI [of _ ?h1] exI [of _ ?X] conjI parse fe X i0 i1 g1 det converse)
qed

theorem pipeline_positions_witness:
  "length (split_sep 32 3 (strip (str ''2024-01-15 10:23:01 INFO Service started''))) = 4
   \<and> length (split_sep 32 3 (strip (str ''2024-01-15 10:23:05 CRITICAL Disk write failed''))) = 4
   \<and> (\<exists>parsed h1 h2.
         parse_logs (\<lambda>col i. Some (1705314181000000000 + 4000000000 * int i))
           [str ''2024-01-15 10:23:01 INFO Service started'',
            str ''2024-01-15 10:23:05 CRITICAL Disk write failed''] = Inr parsed
       \<and> index parsed = [0, 1]
       \<and> feature_engineering ((\<lambda>_. no_frame)(0 := parsed)) 0 = Inr (h1, 0)
       \<and> getitem (h1 0) (str ''level_score'') = Inr [Num 1, Num 4]
       \<and> getitem (h1 0) (str ''message_length'') = Inr [Num 15, Num 17]
       \<and> detect_anomalies (\<lambda>w c seed X. Inr [1, - 1]) () h1 0 (1 / 10) = Inr (h2, 0)
       \<and> index (h2 0) = [0, 1]
       \<and> getitem (h2 0) (str ''level'') = Inr [Str (str ''INFO''), Str (str ''CRITICAL'')]
       \<and> getitem (h2 0) (str ''anomaly'') = Inr [Num 1, Num (- 1)]
       \<and> getitem (h2 0) (str ''is_anomaly'') = Inr [Str normal_label, Str anomaly_label])"
proof -
  let ?l1 = "str ''2024-01-15 10:23:01 INFO Service started''"
  let ?l2 = "str ''2024-01-15 10:23:05 CRITICAL Disk write failed''"
  let ?td = "\<lambda>(col :: cell list) (i :: nat). Some (1705314181000000000 + 4000000000 * int i)"
  let ?lib = "\<lambda>(w :: unit) (c :: real) (seed :: nat option) (X :: dataframe).
                (Inr [1, - 1] :: pyerror + int list)"
  have f1: "split_sep 32 3 (strip ?l1) =
      [str ''2024-01-15'', str ''10:23:01'', str ''INFO'', str ''Service started'']"
    by (simp add: strip_def lstrip_def rstrip_def str_def isspace_def numeral_3_eq_3)
  have f2: "split_sep 32 3 (strip ?l2) =
      [str ''2024-01-15'', str ''10:23:05'', str ''CRITICAL'', str ''Disk write failed'']"
    by (simp add: strip_def lstrip_def rstrip_def str_def isspace_def numeral_3_eq_3)
  have valid: "\<forall>line \<in> set [?l1, ?l2]. length (split_sep 32 3 (strip line)) = 4"
    by (simp add: f1 f2)
  have parsed: "\<forall>i < length [?l1, ?l2]. ?td ts i \<noteq> None" for ts
    by simp
  from pipeline_positions [where logs = "[?l1, ?l2]" and td = ?td and h = "\<lambda>_. no_frame"
      and df = 0 and fit_predict = ?lib and w = "()" and c = "1 / 10", OF valid refl parsed]
  obtain parsed h1 X where p: "parse_logs ?td [?l1, ?l2] = Inr parsed"
    and i0: "index parsed = [0..<length [?l1, ?l2]]"
    and fe: "feature_engineering ((\<lambda>_. no_frame)(0 := parsed)) 0 = Inr (h1, 0)"
    and sc: "getitem (h1 0) (str ''level_score'') =
        Inr (map (\<lambda>line. Num (if split_sep 32 3 (strip line) ! 2 = str ''INFO'' then 1
               else if split_sep 32 3 (strip line) ! 2 = str ''WARNING'' then 2
               else if split_sep 32 3 (strip line) ! 2 = str ''ERROR'' then 3
               else if split_sep 32 3 (strip line) ! 2 = str ''CRITICAL'' then 4 else 0)) [?l1, ?l2])"
    and ml: "getitem (h1 0) (str ''message_length'') =
        Inr (map (\<lambda>line. Num (int (length (split_sep 32 3 (strip line) ! 3)))) [?l1, ?l2])"
    and det: "\<forall>pred. ?lib () (1 / 10) (Some 42) X = Inr pred \<and> length pred = length [?l1, ?l2] \<longrightarrow>
          (\<exists>h2. detect_anomalies ?lib () h1 0 (1 / 10) = Inr (h2, 0)
             \<and> index (h2 0) = [0..<length [?l1, ?l2]]
             \<and> getitem (h2 0) (str ''level'') =
                 Inr (map (\<lambda>line. Str (split_sep 32 3 (strip line) ! 2)) [?l1, ?l2])
             \<and> getitem (h2 0) (str ''message'') =
                 Inr (map (\<lambda>line. Str (split_sep 32 3 (strip line) ! 3)) [?l1, ?l2])
             \<and> getitem (h2 0) (str ''level_score'') =
                 Inr (map (\<lambda>line. Num (if split_sep 32 3 (strip line) ! 2 = str ''INFO'' then 1
               else if split_sep 32 3 (strip line) ! 2 = str ''WARNING'' then 2
               else if split_sep 32 3 (strip line) ! 2 = str ''ERROR'' then 3
               else if split_sep 32 3 (strip line) ! 2 = str ''CRITICAL'' then 4 else 0)) [?l1, ?l2])
             \<and> getitem (h2 0) (str ''message_length'') =
                 Inr (map (\<lambda>line. Num (int (length (split_sep 32 3 (strip line) ! 3)))) [?l1, ?l2])
             \<and> getitem (h2 0) (str ''anomaly'') = Inr (map Num pred)
             \<and> getitem (h2 0) (str ''is_anomaly'') =
                 Inr (map (\<lambda>p. Str (if p = - 1 then anomaly_label else normal_label)) pred))"
    by blast
  from det [rule_format, of "[1, - 1]"]
  obtain h2 where run: "detect_anomalies ?lib () h1 0 (1 / 10) = Inr (h2, 0)"
    and i2: "index (h2 0) = [0..<length [?l1, ?l2]]"
    and lv: "getitem (h2 0) (str ''level'') =
                 Inr (map (\<lambda>line. Str (split_sep 32 3 (strip line) ! 2)) [?l1, ?l2])"
    and an: "getitem (h2 0) (str ''anomaly'') = Inr (map Num [1, - 1])"
    and la: "getitem (h2 0) (str ''is_anomaly'') =
                 Inr (map (\<lambda>p. Str (if p = - 1 then anomaly_label else normal_label)) [1, - 1 :: int])"
    by auto
  have len: "length (str ''Service started'') = 15" "length (str ''Disk write failed'') = 17"
    by (simp_all add: str_def)
  have "index parsed = [0, 1]" "index (h2 0) = [0, 1]"
    using i0 i2 by (simp_all add: upt_rec)
  moreover have "getitem (h1 0) (str ''level_score'') = Inr [Num 1, Num 4]"
    using sc by (simp add: f1 f2)
  moreover have "getitem (h1 0) (str ''message_length'') = Inr [Num 15, Num 17]"
    using ml by (simp add: f1 f2 len)
  moreover have "getitem (h2 0) (str ''level'') = Inr [Str (str ''INFO''), Str (str ''CRITICAL'')]"
    using lv by (simp add: f1 f2)
  moreover have "getitem (h2 0) (str ''anomaly'') = Inr [Num 1, Num (- 1)]"
    using an by simp
  moreover have "getitem (h2 0) (str ''is_anomaly'') = Inr [Str normal_label, Str anomaly_label]"
    using la by simp
  ultimately show ?thesis
    using f1 f2 p fe run by auto
qed

section \<open>The command line program\<close>











end
